theory Spec2Isabelle
  imports Main "HOL-Library.Sublist"
begin

section \<open>Values and text\<close>

text \<open>
  A Python \<open>str\<close> is a sequence of Unicode code points: \<open>pstr\<close> is a list of natural
  numbers, and \<open>lit\<close> turns an ASCII literal of the source into text. Lengths and slices
  count code points, as Python does.
\<close>

type_synonym pstr = "nat list"

definition lit :: "string \<Rightarrow> pstr" where
  "lit cs = map of_char cs"

text \<open>
  Python values that travel through the agent (decoded JSON, search hits, the structured
  plan) are JSON-compatible values. A dict is an association list in insertion order with
  distinct keys. Numbers are integers: the agent only stores, truth-tests and forwards them.
\<close>

datatype json =
    JNull
  | JBool bool
  | JNum int
  | JStr pstr
  | JArr "json list"
  | JObj "(pstr \<times> json) list"

datatype py_error =
    AttributeError | TypeError | KeyError | IndexError | RecursionError | ValueError

text \<open>\<open>d[k] = v\<close>: an existing key keeps its position, a new key goes last.\<close>

fun dict_set :: "('k \<times> 'v) list \<Rightarrow> 'k \<Rightarrow> 'v \<Rightarrow> ('k \<times> 'v) list" where
  "dict_set [] k v = [(k, v)]"
| "dict_set ((k', v') # d) k v = (if k' = k then (k, v) # d else (k', v') # dict_set d k v)"

text \<open>\<open>d.get(k)\<close> is \<open>map_of d k\<close>; \<open>k in d\<close> is \<open>k \<in> fst ` set d\<close>.\<close>

text \<open>\<open>pat in s\<close> for text.\<close>

fun contains :: "pstr \<Rightarrow> pstr \<Rightarrow> bool" where
  "contains pat [] = (pat = [])"
| "contains pat (c # cs) = (prefix pat (c # cs) \<or> contains pat cs)"

text \<open>\<open>s.replace(pat, "")\<close> for a non-empty \<open>pat\<close>: occurrences are removed left to right.\<close>

function remove_all :: "pstr \<Rightarrow> pstr \<Rightarrow> pstr" where
  "remove_all pat s =
     (if pat = [] \<or> s = [] then s
      else if prefix pat s then remove_all pat (drop (length pat) s)
      else hd s # remove_all pat (tl s))"
  by pat_completeness auto
termination
  by (relation "measure (\<lambda>(pat, s). length s)") auto

declare remove_all.simps [simp del]

section \<open>The outside world\<close>

text \<open>
  The search providers, the market-data provider, the language model, the JSON decoder and
  the Unicode tables of the Python runtime are not code of this repository. Each is a field
  of the record \<open>world\<close>. Every call of a provider or of the model is numbered by the
  count of outside calls made so far, so that the same request may be answered differently
  at different times.
\<close>

datatype http_result = HttpRaise | HttpResp nat pstr

datatype ddg_result = DdgRaise pstr | DdgHits "(pstr \<times> json) list list"

text \<open>
  What the block guarded by \<open>try\<close> in \<open>fetch_financials\<close> can observe of a ticker:
  an exception (with its message), a \<open>fast_info\<close> with a truthy \<open>last_price\<close>
  (market cap, price, currency), otherwise an \<open>info\<close> holding \<open>regularMarketPrice\<close>
  (market cap, sector, long summary), otherwise nothing usable.
\<close>

datatype yf_result =
    YfRaise pstr
  | YfFastInfo json json json
  | YfInfo json json pstr
  | YfNoData

text \<open>
  A response of \<open>generate_content\<close>: an exception raised by the call or by reading the
  response, or the response's \<open>text\<close> (if it has one) and the texts of the parts of its
  first candidate (if it has candidates).
\<close>

datatype gen_result = GenRaise pstr | GenResp "pstr option" "pstr list option"

text \<open>
  \<open>json.loads\<close> returns a value, raises \<open>JSONDecodeError\<close> on text that is not JSON, or
  raises something else (\<open>RecursionError\<close> on deeply nested text, \<open>ValueError\<close> on an
  over-long integer).
\<close>

datatype loads_result = Loaded json | JSONDecodeError | LoadsError py_error

record search_hit =
  hit_title :: json
  hit_link :: json
  hit_snippet :: json

text \<open>
  The prompts are f-strings around the data below; a prompt is represented by the data it
  is rendered from (after the truncations the source applies to the report text).
\<close>

datatype prompt =
    ClassifyPrompt pstr
  | ReportPrompt pstr "search_hit list" json
  | JsonPrompt pstr pstr
  | FollowupPrompt pstr pstr
  | ComparePrompt "(pstr \<times> json) list"
  | RewritePrompt pstr json

datatype event =
    EvHttp pstr nat
  | EvDdg pstr nat
  | EvYf pstr
  | EvGen prompt nat

text \<open>
  \<open>uc_space\<close>, \<open>uc_word\<close> and \<open>uc_upper\<close> are the runtime's Unicode tables for the
  code points from 128 on: whether \<open>str.isspace\<close> holds, whether \<open>\w\<close> matches, and the
  upper-case mapping of one character (which may be several characters). \<open>py_str\<close> is
  \<open>str()\<close> of a value that is not text. \<open>http_get\<close> is a request that has been sent: it
  takes the URL, the query and the result bound.
\<close>

record world =
  google_api_key :: "pstr option"
  cse_id :: "pstr option"
  ddgs_available :: bool
  http_get :: "nat \<Rightarrow> pstr \<Rightarrow> pstr \<Rightarrow> nat \<Rightarrow> http_result"
  ddgs_text :: "nat \<Rightarrow> pstr \<Rightarrow> nat \<Rightarrow> ddg_result"
  yf_ticker :: "nat \<Rightarrow> pstr \<Rightarrow> yf_result"
  generate_content :: "nat \<Rightarrow> prompt \<Rightarrow> nat \<Rightarrow> gen_result"
  json_loads :: "pstr \<Rightarrow> loads_result"
  uc_space :: "nat \<Rightarrow> bool"
  uc_word :: "nat \<Rightarrow> bool"
  uc_upper :: "nat \<Rightarrow> pstr"
  py_str :: "json \<Rightarrow> pstr"

text \<open>\<open>str.isspace\<close> of one character, and \<open>str.strip()\<close>.\<close>

definition is_space :: "world \<Rightarrow> nat \<Rightarrow> bool" where
  "is_space w c = (if c < 128 then (9 \<le> c \<and> c \<le> 13) \<or> (28 \<le> c \<and> c \<le> 32) else uc_space w c)"

definition strip :: "world \<Rightarrow> pstr \<Rightarrow> pstr" where
  "strip w s = rev (dropWhile (is_space w) (rev (dropWhile (is_space w) s)))"

section \<open>Helper functions of agent.py\<close>

definition fence_json :: pstr where
  "fence_json = lit ''```json''"

definition fence :: pstr where
  "fence = lit ''```''"

definition clean_json_string :: "world \<Rightarrow> pstr \<Rightarrow> pstr" where
  "clean_json_string w json_str =
     (if contains fence_json json_str
        then strip w (remove_all fence (remove_all fence_json json_str))
      else if contains fence json_str
        then strip w (remove_all fence json_str)
      else strip w json_str)"

section \<open>The agent's state\<close>

record company_plan =
  plan_text :: pstr
  plan_original_text :: pstr
  plan_json :: json

record tool_call =
  tc_tool :: pstr
  tc_input :: pstr
  tc_output :: pstr

datatype status =
    StDetecting
  | StSearching pstr
  | StFinancial
  | StWriting
  | StExtracting
  | StComparing "pstr list"

text \<open>
  \<open>company_memory\<close>, \<open>tool_calls\<close> and \<open>chat_history\<close> are the fields of
  \<open>CompanyResearchAgent\<close>. \<open>trace\<close> records the outside calls in order and
  \<open>statuses\<close> the messages handed to the status callback, \<open>research_log\<close> the
  company of every call of \<open>perform_deep_research\<close>; the source keeps none of the three.
  The timestamp of a tool call is left out.
\<close>

record agent =
  company_memory :: "(pstr \<times> company_plan) list"
  tool_calls :: "tool_call list"
  chat_history :: "(pstr \<times> pstr) list"
  trace :: "event list"
  statuses :: "status list"
  research_log :: "json list"

definition log_tool :: "pstr \<Rightarrow> pstr \<Rightarrow> pstr \<Rightarrow> agent \<Rightarrow> agent" where
  "log_tool tool inp out s =
     s\<lparr>tool_calls := tool_calls s @
        [\<lparr>tc_tool = tool, tc_input = take 300 inp, tc_output = take 300 out\<rparr>]\<rparr>"

definition notify :: "bool \<Rightarrow> status \<Rightarrow> agent \<Rightarrow> agent" where
  "notify cb m s = (if cb then s\<lparr>statuses := statuses s @ [m]\<rparr> else s)"

definition record_event :: "event \<Rightarrow> agent \<Rightarrow> agent" where
  "record_event e s = s\<lparr>trace := trace s @ [e]\<rparr>"

text \<open>The body of \<open>safe_generate_text\<close>, applied to the answer of \<open>generate_content\<close>.\<close>

definition response_text :: "world \<Rightarrow> gen_result \<Rightarrow> pstr" where
  "response_text w r =
     (let parts_text = (\<lambda>ps. case ps of Some parts \<Rightarrow> strip w (concat parts) | None \<Rightarrow> [])
      in case r of
           GenRaise exc \<Rightarrow> lit ''Error generating content: '' @ exc
         | GenResp (Some t) ps \<Rightarrow> (if t \<noteq> [] then strip w t else parts_text ps)
         | GenResp None ps \<Rightarrow> parts_text ps)"

definition safe_generate_text :: "world \<Rightarrow> agent \<Rightarrow> prompt \<Rightarrow> nat \<Rightarrow> pstr \<times> agent" where
  "safe_generate_text w s p max_tokens =
     (response_text w (generate_content w (length (trace s)) p max_tokens),
      record_event (EvGen p max_tokens) s)"

section \<open>Search layer\<close>

fun str_nat :: "nat \<Rightarrow> pstr" where
  "str_nat n =
     (if n < 10 then [48 + n]
      else str_nat (n div 10) @ [48 + n mod 10])"

declare str_nat.simps [simp del]

definition truthy_key :: "pstr option \<Rightarrow> bool" where
  "truthy_key k = (case k of None \<Rightarrow> False | Some v \<Rightarrow> v \<noteq> [])"

text \<open>\<open>for i in v\<close>: a list yields its elements, a string its characters, a dict its keys;
  anything else is not iterable.\<close>

fun py_iter :: "json \<Rightarrow> json list option" where
  "py_iter (JArr xs) = Some xs"
| "py_iter (JStr cs) = Some (map (\<lambda>c. JStr [c]) cs)"
| "py_iter (JObj d) = Some (map (\<lambda>kv. JStr (fst kv)) d)"
| "py_iter _ = None"

text \<open>\<open>d.get(k)\<close> with \<open>None\<close> for a missing key.\<close>

definition get_or_null :: "(pstr \<times> json) list \<Rightarrow> pstr \<Rightarrow> json" where
  "get_or_null d k = (case map_of d k of None \<Rightarrow> JNull | Some v \<Rightarrow> v)"

text \<open>One item of the primary provider's answer; \<open>None\<close> when \<open>i.get\<close> raises.\<close>

fun google_item :: "json \<Rightarrow> search_hit option" where
  "google_item (JObj d) =
     Some \<lparr>hit_title = get_or_null d (lit ''title''), hit_link = get_or_null d (lit ''link''),
           hit_snippet = get_or_null d (lit ''snippet'')\<rparr>"
| "google_item _ = None"

fun map_all :: "('a \<Rightarrow> 'b option) \<Rightarrow> 'a list \<Rightarrow> 'b list option" where
  "map_all f [] = Some []"
| "map_all f (x # xs) =
     (case f x of None \<Rightarrow> None
      | Some y \<Rightarrow> (case map_all f xs of None \<Rightarrow> None | Some ys \<Rightarrow> Some (y # ys)))"

text \<open>The list comprehension over \<open>data.get("items", [])\<close>; \<open>None\<close> when it raises.\<close>

fun google_results :: "json \<Rightarrow> search_hit list option" where
  "google_results (JObj d) =
     (case py_iter (case map_of d (lit ''items'') of None \<Rightarrow> JArr [] | Some v \<Rightarrow> v) of
        None \<Rightarrow> None
      | Some items \<Rightarrow> map_all google_item items)"
| "google_results _ = None"

text \<open>One hit of the fallback provider; a missing key raises \<open>KeyError\<close>, whose text is
  the quoted key.\<close>

definition key_error_text :: "pstr \<Rightarrow> pstr" where
  "key_error_text k = [39] @ k @ [39]"

definition ddg_item :: "(pstr \<times> json) list \<Rightarrow> pstr + search_hit" where
  "ddg_item r =
     (case map_of r (lit ''title'') of None \<Rightarrow> Inl (key_error_text (lit ''title''))
      | Some t \<Rightarrow>
     (case map_of r (lit ''href'') of None \<Rightarrow> Inl (key_error_text (lit ''href''))
      | Some l \<Rightarrow>
     (case map_of r (lit ''body'') of None \<Rightarrow> Inl (key_error_text (lit ''body''))
      | Some b \<Rightarrow> Inr \<lparr>hit_title = t, hit_link = l, hit_snippet = b\<rparr>)))"

fun ddg_results :: "(pstr \<times> json) list list \<Rightarrow> pstr + search_hit list" where
  "ddg_results [] = Inr []"
| "ddg_results (r # rs) =
     (case ddg_item r of Inl e \<Rightarrow> Inl e
      | Inr h \<Rightarrow> (case ddg_results rs of Inl e \<Rightarrow> Inl e | Inr hs \<Rightarrow> Inr (h # hs)))"

text \<open>Part B of \<open>search_web\<close>: the fallback provider, then the final \<open>return []\<close>.\<close>

definition search_fallback :: "world \<Rightarrow> agent \<Rightarrow> pstr \<Rightarrow> nat \<Rightarrow> search_hit list \<times> agent" where
  "search_fallback w s query top_k =
     (if ddgs_available w then
        (let s1 = record_event (EvDdg query top_k) s in
         case ddgs_text w (length (trace s)) query top_k of
           DdgRaise e \<Rightarrow> ([], log_tool (lit ''Search Error'') query e s1)
         | DdgHits raw_res \<Rightarrow>
             (case ddg_results raw_res of
                Inl e \<Rightarrow> ([], log_tool (lit ''Search Error'') query e s1)
              | Inr results \<Rightarrow>
                  (results,
                   log_tool (lit ''DuckDuckGo'') query
                     (lit ''Found '' @ str_nat (length results)) s1)))
      else ([], s))"

text \<open>The URL literal of \<open>search_web\<close>, character for character.\<close>

definition search_url :: pstr where
  "search_url =
     lit ''[https://www.googleapis.com/customsearch/v1](https://www.googleapis.com/customsearch/v1)''"

text \<open>
  \<open>requests.get\<close> looks for a connection adapter whose prefix (\<open>https://\<close> or
  \<open>http://\<close>) starts the URL in lower case; with none it raises \<open>InvalidSchema\<close> and
  nothing is sent.
\<close>

definition ascii_lower :: "nat \<Rightarrow> nat" where
  "ascii_lower c = (if 65 \<le> c \<and> c \<le> 90 then c + 32 else c)"

definition has_adapter :: "pstr \<Rightarrow> bool" where
  "has_adapter url =
     (prefix (lit ''https://'') (map ascii_lower url) \<or> prefix (lit ''http://'') (map ascii_lower url))"

definition requests_get :: "world \<Rightarrow> nat \<Rightarrow> pstr \<Rightarrow> pstr \<Rightarrow> nat \<Rightarrow> http_result" where
  "requests_get w n url query top_k =
     (if has_adapter url then http_get w n url query top_k else HttpRaise)"

text \<open>
  Part A of \<open>search_web\<close>, inside its \<open>try\<close>. \<open>primary_results\<close> is what the
  code makes of the outcome of \<open>requests.get\<close>: the mapped results, or \<open>None\<close> when the
  call raised, the status is not 200, or the body does not decode to items that can be
  mapped (every exception is caught).
\<close>

definition primary_results :: "world \<Rightarrow> http_result \<Rightarrow> search_hit list option" where
  "primary_results w res =
     (case res of
        HttpRaise \<Rightarrow> None
      | HttpResp status_code body \<Rightarrow>
          (if status_code = 200 then
             (case json_loads w body of
                Loaded data \<Rightarrow> google_results data
              | JSONDecodeError \<Rightarrow> None
              | LoadsError e \<Rightarrow> None)
           else None))"

definition search_primary :: "world \<Rightarrow> nat \<Rightarrow> pstr \<Rightarrow> nat \<Rightarrow> search_hit list option" where
  "search_primary w n query top_k =
     primary_results w (requests_get w n search_url query top_k)"

definition search_web :: "world \<Rightarrow> agent \<Rightarrow> pstr \<Rightarrow> nat \<Rightarrow> search_hit list \<times> agent" where
  "search_web w s query top_k =
     (if truthy_key (google_api_key w) \<and> truthy_key (cse_id w) then
        (let s1 = (if has_adapter search_url then record_event (EvHttp query top_k) s else s) in
         case search_primary w (length (trace s)) query top_k of
           Some results \<Rightarrow>
             (results,
              log_tool (lit ''Google Search'') query
                (lit ''Found '' @ str_nat (length results)) s1)
         | None \<Rightarrow> search_fallback w s1 query top_k)
      else search_fallback w s query top_k)"

section \<open>Financial layer\<close>

definition is_upper :: "nat \<Rightarrow> bool" where
  "is_upper c = (65 \<le> c \<and> c \<le> 90)"

text \<open>What \<open>\w\<close> matches: the ASCII letters, digits and underscore, and beyond ASCII what
  the runtime's table says.\<close>

definition is_word :: "world \<Rightarrow> nat \<Rightarrow> bool" where
  "is_word w c =
     (if c < 128
      then (65 \<le> c \<and> c \<le> 90) \<or> (97 \<le> c \<and> c \<le> 122) \<or> (48 \<le> c \<and> c \<le> 57) \<or> c = 95
      else uc_word w c)"

text \<open>\<open>str.upper()\<close>, character by character.\<close>

definition upper_char :: "world \<Rightarrow> nat \<Rightarrow> pstr" where
  "upper_char w c =
     (if 97 \<le> c \<and> c \<le> 122 then [c - 32] else if c < 128 then [c] else uc_upper w c)"

definition upper :: "world \<Rightarrow> pstr \<Rightarrow> pstr" where
  "upper w s = concat (map (upper_char w) s)"

text \<open>
  \<open>[A-Z]{1,5}\b\<close> tried at the head of \<open>s\<close>: the run of capitals found there is the
  match when it has one to five letters and no word character follows it. A shorter piece
  of the run is followed by a capital, so the closing \<open>\b\<close> fails on it.
\<close>

definition match_here :: "world \<Rightarrow> pstr \<Rightarrow> pstr option" where
  "match_here w s =
     (let run = takeWhile is_upper s; rest = dropWhile is_upper s
      in if 1 \<le> length run \<and> length run \<le> 5 \<and> (rest = [] \<or> \<not> is_word w (hd rest))
         then Some run else None)"

text \<open>
  \<open>re.search(r"\b[A-Z]{1,5}\b", s)\<close>: the leftmost position with a word boundary in
  front and a match behind. \<open>prev\<close> tells whether the character before is a word
  character.
\<close>

fun scan_ticker :: "world \<Rightarrow> bool \<Rightarrow> pstr \<Rightarrow> pstr option" where
  "scan_ticker w prev [] = None"
| "scan_ticker w prev (c # cs) =
     (if prev \<noteq> is_word w c then
        (case match_here w (c # cs) of
           Some t \<Rightarrow> Some t
         | None \<Rightarrow> scan_ticker w (is_word w c) cs)
      else scan_ticker w (is_word w c) cs)"

definition search_ticker :: "world \<Rightarrow> pstr \<Rightarrow> pstr option" where
  "search_ticker w s = scan_ticker w False s"

definition error_dict :: "pstr \<Rightarrow> json" where
  "error_dict msg = JObj [(lit ''error'', JStr msg)]"

text \<open>The guarded block of \<open>fetch_financials\<close>, entered once a ticker is known.\<close>

definition ticker_data :: "world \<Rightarrow> agent \<Rightarrow> pstr \<Rightarrow> json \<times> agent" where
  "ticker_data w s ticker =
     (let s1 = record_event (EvYf ticker) s in
      case yf_ticker w (length (trace s)) ticker of
        YfFastInfo market_cap price currency \<Rightarrow>
          (JObj [(lit ''symbol'', JStr ticker), (lit ''market_cap'', market_cap),
                 (lit ''price'', price), (lit ''currency'', currency),
                 (lit ''source'', JStr (lit ''yfinance fast_info''))],
           log_tool (lit ''YFinance'') ticker (lit ''Success'') s1)
      | YfInfo market_cap sector summary \<Rightarrow>
          (JObj [(lit ''symbol'', JStr ticker), (lit ''market_cap'', market_cap),
                 (lit ''sector'', sector), (lit ''summary'', JStr (take 500 summary))],
           log_tool (lit ''YFinance'') ticker (lit ''Success'') s1)
      | YfNoData \<Rightarrow> (error_dict (lit ''No financial data available''), s1)
      | YfRaise e \<Rightarrow> (error_dict e, s1))"

definition fetch_financials :: "world \<Rightarrow> agent \<Rightarrow> pstr \<Rightarrow> (py_error + json) \<times> agent" where
  "fetch_financials w s company =
     (case search_ticker w company of
        Some ticker \<Rightarrow> (let (d, s') = ticker_data w s ticker in (Inr d, s'))
      | None \<Rightarrow>
          (let (hits, s1) = search_web w s (company @ lit '' stock ticker symbol'') 1 in
           case hits of
             [] \<Rightarrow> (Inr (error_dict (lit ''Could not detect ticker.'')), s1)
           | h # _ \<Rightarrow>
               (case hit_title h of
                  JStr title \<Rightarrow>
                    (case search_ticker w (upper w title) of
                       Some ticker \<Rightarrow> (let (d, s') = ticker_data w s1 ticker in (Inr d, s'))
                     | None \<Rightarrow> (Inr (error_dict (lit ''Could not detect ticker.'')), s1))
                | _ \<Rightarrow> (Inl AttributeError, s1))))"

section \<open>Intent layer\<close>

definition default_intent :: json where
  "default_intent = JObj [(lit ''intent'', JStr (lit ''research'')), (lit ''companies'', JArr [])]"

text \<open>\<open>res[res.find("{") : res.rfind("}") + 1]\<close>, for a \<open>res\<close> that holds an opening
  brace (code point 123); with no closing brace (125) the end index is 0.\<close>

definition brace_slice :: "pstr \<Rightarrow> pstr" where
  "brace_slice res =
     (let start = length (takeWhile (\<lambda>c. c \<noteq> 123) res);
          endi = (if 125 \<in> set res
                  then length res - length (takeWhile (\<lambda>c. c \<noteq> 125) (rev res))
                  else 0)
      in drop start (take endi res))"

text \<open>The bare \<open>except\<close> of \<open>classify_intent\<close> catches whatever \<open>json.loads\<close> raises.\<close>

definition classify_intent :: "world \<Rightarrow> agent \<Rightarrow> pstr \<Rightarrow> json \<times> agent" where
  "classify_intent w s user_text =
     (let (res0, s1) = safe_generate_text w s (ClassifyPrompt user_text) 200;
          res = clean_json_string w res0
      in if 123 \<in> set res then
           (case json_loads w (brace_slice res) of
              Loaded v \<Rightarrow> (v, s1)
            | _ \<Rightarrow> (default_intent, s1))
         else (default_intent, s1))"

section \<open>Main logic\<close>

definition parse_failure :: "pstr \<Rightarrow> json" where
  "parse_failure json_str =
     JObj [(lit ''error'', JStr (lit ''Failed to parse JSON'')), (lit ''raw'', JStr json_str)]"

text \<open>\<open>f"{v}"\<close>: text as it is, any other value through \<open>str()\<close>.\<close>

definition format_value :: "world \<Rightarrow> json \<Rightarrow> pstr" where
  "format_value w v = (case v of JStr t \<Rightarrow> t | _ \<Rightarrow> py_str w v)"

text \<open>The assignment \<open>self.company_memory[company_name] = {...}\<close> that ends
  \<open>perform_deep_research\<close>.\<close>

definition store_plan :: "agent \<Rightarrow> pstr \<Rightarrow> pstr \<Rightarrow> json \<Rightarrow> agent" where
  "store_plan s company_name report_text json_data =
     s\<lparr>company_memory :=
         dict_set (company_memory s) company_name
           \<lparr>plan_text = report_text, plan_original_text = report_text,
            plan_json = json_data\<rparr>\<rparr>"

text \<open>
  \<open>perform_deep_research\<close>. The callers hand over whatever the classifier named as a
  company, so \<open>company_name\<close> is any value; one that is not text is searched for under
  its \<open>str()\<close> and then makes \<open>re.search\<close> in \<open>fetch_financials\<close> raise \<open>TypeError\<close>.
  Only \<open>json.JSONDecodeError\<close> is caught around \<open>json.loads\<close>: anything else it raises
  leaves the function before the plan is stored.
\<close>

definition perform_deep_research ::
  "world \<Rightarrow> agent \<Rightarrow> json \<Rightarrow> bool \<Rightarrow> (py_error + pstr) \<times> agent" where
  "perform_deep_research w s company_name cb =
     (let shown = format_value w company_name;
          s0 = notify cb (StSearching shown)
                 (s\<lparr>research_log := research_log s @ [company_name]\<rparr>);
          (search_data, s1) = search_web w s0 (shown @ lit '' strategic analysis news'') 5;
          s2 = notify cb StFinancial s1
      in case company_name of
           JStr name \<Rightarrow>
             (case fetch_financials w s2 name of
                (Inl e, s3) \<Rightarrow> (Inl e, s3)
              | (Inr fin_data, s3) \<Rightarrow>
                  (let s4 = notify cb StWriting s3;
                       (report_text, s5) =
                          safe_generate_text w s4 (ReportPrompt name search_data fin_data) 8000;
                       s6 = notify cb StExtracting s5;
                       (json_raw, s7) =
                          safe_generate_text w s6 (JsonPrompt name (take 20000 report_text)) 4000;
                       json_str = clean_json_string w json_raw
                   in case json_loads w json_str of
                        Loaded json_data \<Rightarrow>
                          (Inr report_text, store_plan s7 name report_text json_data)
                      | JSONDecodeError \<Rightarrow>
                          (Inr report_text, store_plan s7 name report_text (parse_failure json_str))
                      | LoadsError e \<Rightarrow> (Inl e, s7)))
         | _ \<Rightarrow> (Inl TypeError, s2))"

definition answer_followup :: "world \<Rightarrow> agent \<Rightarrow> pstr \<Rightarrow> pstr \<Rightarrow> pstr \<times> agent" where
  "answer_followup w s company question =
     (let context_text = (case map_of (company_memory s) company of
                            None \<Rightarrow> []
                          | Some mem \<Rightarrow> take 5000 (plan_text mem))
      in safe_generate_text w s (FollowupPrompt context_text question) 8192)"

text \<open>
  The loop of \<open>compare_companies\<close>, with \<open>data_points\<close> as accumulator. A list or a dict
  cannot be looked up in \<open>company_memory\<close> (\<open>TypeError\<close>: unhashable); any other value
  that is not text is no key of it, so it is researched, which raises.
\<close>

fun compare_loop ::
  "world \<Rightarrow> agent \<Rightarrow> json list \<Rightarrow> (pstr \<times> json) list
     \<Rightarrow> (py_error + (pstr \<times> json) list) \<times> agent" where
  "compare_loop w s [] data_points = (Inr data_points, s)"
| "compare_loop w s (c # cs) data_points =
     (case c of
        JStr name \<Rightarrow>
          (case (if name \<notin> fst ` set (company_memory s)
                 then perform_deep_research w s c False
                 else (Inr [], s)) of
             (Inl e, s') \<Rightarrow> (Inl e, s')
           | (Inr _, s') \<Rightarrow>
               (case map_of (company_memory s') name of
                  None \<Rightarrow> (Inl KeyError, s')
                | Some mem \<Rightarrow> compare_loop w s' cs (dict_set data_points name (plan_json mem))))
      | JArr _ \<Rightarrow> (Inl TypeError, s)
      | JObj _ \<Rightarrow> (Inl TypeError, s)
      | _ \<Rightarrow>
          (case perform_deep_research w s c False of
             (Inl e, s') \<Rightarrow> (Inl e, s')
           | (Inr _, s') \<Rightarrow> (Inl KeyError, s')))"

fun as_text :: "json \<Rightarrow> pstr option" where
  "as_text (JStr cs) = Some cs"
| "as_text _ = None"

text \<open>
  \<open>compare_companies\<close>, given the items of \<open>companies\<close>. With a status callback the
  items are joined first, which raises \<open>TypeError\<close> unless all of them are text.
\<close>

definition compare_companies ::
  "world \<Rightarrow> agent \<Rightarrow> json list \<Rightarrow> bool \<Rightarrow> (py_error + pstr) \<times> agent" where
  "compare_companies w s companies cb =
     (case (if cb then (case map_all as_text companies of
                          None \<Rightarrow> Inl TypeError
                        | Some names \<Rightarrow> Inr (notify cb (StComparing names) s))
            else Inr s) of
        Inl e \<Rightarrow> (Inl e, s)
      | Inr s0 \<Rightarrow>
          (case compare_loop w s0 companies [] of
             (Inl e, s') \<Rightarrow> (Inl e, s')
           | (Inr data_points, s') \<Rightarrow>
               (let (res, s'') = safe_generate_text w s' (ComparePrompt data_points) 8192
                in (Inr res, s''))))"

section \<open>Editor utilities\<close>

definition list_companies :: "agent \<Rightarrow> pstr list" where
  "list_companies s = map fst (company_memory s)"

text \<open>
  \<open>mem\<close> is the dict stored in \<open>company_memory\<close> itself, so both assignments of
  \<open>update_company_section\<close> change the stored plan. A stored JSON that is not a dict
  makes the item assignment raise before anything is changed.
\<close>

definition update_company_section ::
  "world \<Rightarrow> agent \<Rightarrow> pstr \<Rightarrow> pstr \<Rightarrow> json \<Rightarrow> (py_error + pstr) \<times> agent" where
  "update_company_section w s company section new_val =
     (case map_of (company_memory s) company of
        None \<Rightarrow> (Inr (lit ''Error: Company not found''), s)
      | Some mem \<Rightarrow>
          (case plan_json mem of
             JObj d \<Rightarrow>
               (let j = JObj (dict_set d section new_val);
                    s1 = s\<lparr>company_memory :=
                            dict_set (company_memory s) company (mem\<lparr>plan_json := j\<rparr>)\<rparr>;
                    (new_text, s2) = safe_generate_text w s1 (RewritePrompt section j) 8000
                in (Inr (lit ''Report Regenerated Successfully.''),
                    s2\<lparr>company_memory :=
                         dict_set (company_memory s2) company
                           (mem\<lparr>plan_json := j, plan_text := new_text\<rparr>)\<rparr>))
           | _ \<Rightarrow> (Inl TypeError, s)))"

section \<open>Dispatch\<close>

definition off_topic_reply :: pstr where
  "off_topic_reply =
     lit ''I specialize in corporate strategy. Please ask me to research a company.''"

definition greeting_reply :: pstr where
  "greeting_reply =
     lit ''Hello! I am your Enterprise Research Agent. Ask me to '' @ [39] @ lit ''Analyze Tesla''
       @ [39] @ lit '' or '' @ [39] @ lit ''Compare Ford and GM'' @ [39] @ lit ''.''"

text \<open>\<open>len(v)\<close>; \<open>None\<close> when the value has no length.\<close>

fun py_len :: "json \<Rightarrow> nat option" where
  "py_len (JArr xs) = Some (length xs)"
| "py_len (JStr cs) = Some (length cs)"
| "py_len (JObj d) = Some (length d)"
| "py_len _ = None"

fun truthy :: "json \<Rightarrow> bool" where
  "truthy JNull = False"
| "truthy (JBool b) = b"
| "truthy (JNum n) = (n \<noteq> 0)"
| "truthy (JStr cs) = (cs \<noteq> [])"
| "truthy (JArr xs) = (xs \<noteq> [])"
| "truthy (JObj d) = (d \<noteq> [])"

text \<open>\<open>v[0]\<close> for a truthy \<open>v\<close>: a dict decoded from JSON has no key \<open>0\<close>, a number or
  a boolean cannot be indexed.\<close>

fun first_item :: "json \<Rightarrow> py_error + json" where
  "first_item (JArr (x # xs)) = Inr x"
| "first_item (JArr []) = Inl IndexError"
| "first_item (JStr (c # cs)) = Inr (JStr [c])"
| "first_item (JStr []) = Inl IndexError"
| "first_item (JObj d) = Inl KeyError"
| "first_item _ = Inl TypeError"

text \<open>
  \<open>ask\<close>. The classifier's answer is whatever was decoded, so \<open>intent\<close> and
  \<open>companies\<close> are arbitrary values: a classifier answer that is no dict has no \<open>get\<close>,
  \<open>len\<close> of a number raises, and \<open>companies[0]\<close> is evaluated (and may raise) before the
  follow-up branch is looked at. \<open>compare_companies\<close> is handed the items that iterating
  over \<open>companies\<close> yields.
\<close>

definition ask :: "world \<Rightarrow> agent \<Rightarrow> pstr \<Rightarrow> bool \<Rightarrow> (py_error + pstr) \<times> agent" where
  "ask w s user_text cb =
     (let s0 = s\<lparr>chat_history := chat_history s @ [(lit ''user'', user_text)]\<rparr>;
          s1 = notify cb StDetecting s0;
          (intent_data, s2) = classify_intent w s1 user_text
      in case intent_data of
           JObj d \<Rightarrow>
             (let intent = (case map_of d (lit ''intent'') of
                              None \<Rightarrow> JStr (lit ''research'') | Some v \<Rightarrow> v);
                  companies = (case map_of d (lit ''companies'') of
                                 None \<Rightarrow> JArr [] | Some v \<Rightarrow> v)
              in if intent = JStr (lit ''off_topic'') then (Inr off_topic_reply, s2)
                 else if intent = JStr (lit ''greeting'') then (Inr greeting_reply, s2)
                 else if intent = JStr (lit ''compare'') \<and> py_len companies = None
                   then (Inl TypeError, s2)
                 else if intent = JStr (lit ''compare'') \<and> 2 \<le> the (py_len companies) then
                   (case py_iter companies of
                      None \<Rightarrow> (Inl TypeError, s2)
                    | Some items \<Rightarrow> compare_companies w s2 items cb)
                 else
                   (case (if truthy companies then first_item companies
                          else Inr (JStr user_text)) of
                      Inl e \<Rightarrow> (Inl e, s2)
                    | Inr company \<Rightarrow>
                        (if intent = JStr (lit ''follow_up'') \<and> company_memory s2 \<noteq> [] then
                           (let (res, s3) =
                                  answer_followup w s2 (last (list_companies s2)) user_text
                            in (Inr res, s3))
                         else perform_deep_research w s2 company cb)))
         | _ \<Rightarrow> (Inl AttributeError, s2))"

section \<open>Observations on a run\<close>

text \<open>The tickers handed to the market-data provider, in order.\<close>

fun yf_calls :: "event list \<Rightarrow> pstr list" where
  "yf_calls [] = []"
| "yf_calls (EvYf t # es) = t # yf_calls es"
| "yf_calls (e # es) = yf_calls es"

text \<open>
  The companies of \<open>cs\<close> that are not among \<open>known\<close>, each once, in the order of their
  first occurrence.
\<close>

fun absent_in_order :: "pstr list \<Rightarrow> pstr list \<Rightarrow> pstr list" where
  "absent_in_order known [] = []"
| "absent_in_order known (c # cs) =
     (if c \<in> set known then absent_in_order known cs
      else c # absent_in_order (known @ [c]) cs)"

text \<open>
  A bare token of one to five capitals, in the words of the specification: \<open>n\<close> capitals
  that start at index \<open>i\<close> of \<open>s\<close>, with no word character right before them and none
  right after them.
\<close>

definition token_at :: "world \<Rightarrow> pstr \<Rightarrow> nat \<Rightarrow> nat \<Rightarrow> bool" where
  "token_at w s i n =
     (1 \<le> n \<and> n \<le> 5 \<and> i + n \<le> length s
      \<and> list_all is_upper (take n (drop i s))
      \<and> (if i = 0 then True else \<not> is_word w (s ! (i - 1)))
      \<and> (if i + n = length s then True else \<not> is_word w (s ! (i + n))))"

definition has_token :: "world \<Rightarrow> pstr \<Rightarrow> bool" where
  "has_token w s = (\<exists>i \<in> set [0..<length s]. \<exists>n \<in> set [1..<6]. token_at w s i n)"

section \<open>Scenarios\<close>

text \<open>
  Concrete worlds and agents for the worked examples below. All their texts are ASCII, so
  the Unicode tables are never consulted, and no value other than text is formatted.
  \<open>table_loads\<close> states what \<open>json.loads\<close> does on the texts the scenarios hand to it:
  \<open>{}\<close> is the empty dict, \<open>follow_up_body\<close> and \<open>dict_body\<close> are the dicts they spell,
  decoding \<open>deep_text\<close> (20000 opening brackets) exceeds the recursion limit, and the
  other texts used (\<open>report\<close>, ...) are not JSON.
\<close>

definition quoted :: "string \<Rightarrow> pstr" where
  "quoted cs = [34] @ lit cs @ [34]"

definition followup_body :: pstr where
  "followup_body =
     lit ''{'' @ quoted ''intent'' @ lit '': '' @ quoted ''follow_up'' @ lit '', ''
       @ quoted ''companies'' @ lit '': []}''"

definition dict_body :: pstr where
  "dict_body =
     lit ''{'' @ quoted ''intent'' @ lit '': '' @ quoted ''follow_up'' @ lit '', ''
       @ quoted ''companies'' @ lit '': {'' @ quoted ''a'' @ lit '': 1}}''"

definition deep_text :: pstr where
  "deep_text = replicate 20000 91"

definition table_loads :: "pstr \<Rightarrow> loads_result" where
  "table_loads t =
     (if t = lit ''{}'' then Loaded (JObj [])
      else if t = followup_body
        then Loaded (JObj [(lit ''intent'', JStr (lit ''follow_up'')), (lit ''companies'', JArr [])])
      else if t = dict_body
        then Loaded (JObj [(lit ''intent'', JStr (lit ''follow_up'')),
                           (lit ''companies'', JObj [(lit ''a'', JNum 1)])])
      else if t = deep_text then LoadsError RecursionError
      else JSONDecodeError)"

text \<open>No search credentials, no fallback library, no market data; the model answers
  \<open>report\<close> to every prompt.\<close>

definition offline_world :: world where
  "offline_world =
     \<lparr>google_api_key = None, cse_id = None, ddgs_available = False,
      http_get = (\<lambda>n url q k. HttpRaise),
      ddgs_text = (\<lambda>n q k. DdgRaise (lit ''offline'')),
      yf_ticker = (\<lambda>n t. YfNoData),
      generate_content = (\<lambda>n p m. GenResp (Some (lit ''report'')) None),
      json_loads = table_loads,
      uc_space = (\<lambda>c. False), uc_word = (\<lambda>c. False), uc_upper = (\<lambda>c. [c]),
      py_str = (\<lambda>v. [])\<rparr>"

text \<open>The model's answer depends on when it is asked: the first and third calls write
  two different reports, the calls in between answer \<open>{}\<close>.\<close>

definition changing_world :: world where
  "changing_world =
     offline_world\<lparr>generate_content :=
       (\<lambda>n p m. GenResp (Some (if n = 0 then lit ''first report''
                                else if n = 2 then lit ''second report'' else lit ''{}'')) None)\<rparr>"

text \<open>The model answers \<open>{}\<close> to every prompt.\<close>

definition braces_world :: world where
  "braces_world = offline_world\<lparr>generate_content := (\<lambda>n p m. GenResp (Some (lit ''{}'')) None)\<rparr>"

text \<open>The model classifies every utterance as a follow-up with no company, and answers
  \<open>answer\<close> to every other prompt.\<close>

definition followup_world :: world where
  "followup_world =
     offline_world\<lparr>generate_content :=
       (\<lambda>n p m. case p of ClassifyPrompt u \<Rightarrow> GenResp (Some followup_body) None
                 | _ \<Rightarrow> GenResp (Some (lit ''answer'')) None)\<rparr>"

text \<open>The model classifies every utterance as a follow-up and names the companies in a
  dict.\<close>

definition dict_world :: world where
  "dict_world =
     offline_world\<lparr>generate_content :=
       (\<lambda>n p m. case p of ClassifyPrompt u \<Rightarrow> GenResp (Some dict_body) None
                 | _ \<Rightarrow> GenResp (Some (lit ''answer'')) None)\<rparr>"

text \<open>The model writes \<open>report\<close> as narrative and answers the extraction prompt with
  \<open>deep_text\<close>.\<close>

definition deep_world :: world where
  "deep_world =
     offline_world\<lparr>generate_content :=
       (\<lambda>n p m. case p of JsonPrompt c t \<Rightarrow> GenResp (Some deep_text) None
                 | _ \<Rightarrow> GenResp (Some (lit ''report'')) None)\<rparr>"

definition tesla_hit :: "(pstr \<times> json) list" where
  "tesla_hit =
     [(lit ''title'', JStr (lit ''tesla inc'')), (lit ''href'', JStr (lit ''u'')),
      (lit ''body'', JStr (lit ''b''))]"

definition microsoft_hit :: "(pstr \<times> json) list" where
  "microsoft_hit =
     [(lit ''title'', JStr (lit ''microsoft corporation'')), (lit ''href'', JStr (lit ''u'')),
      (lit ''body'', JStr (lit ''b''))]"

text \<open>The fallback provider works and returns one hit titled \<open>tesla inc\<close>; the market-data
  provider knows every ticker.\<close>

definition ddg_world :: world where
  "ddg_world =
     offline_world\<lparr>ddgs_available := True,
       ddgs_text := (\<lambda>n q k. DdgHits [tesla_hit]),
       yf_ticker := (\<lambda>n t. YfFastInfo (JNum 1) (JNum 2) (JStr (lit ''USD'')))\<rparr>"

text \<open>The same, with one hit titled \<open>microsoft corporation\<close>.\<close>

definition microsoft_world :: world where
  "microsoft_world = ddg_world\<lparr>ddgs_text := (\<lambda>n q k. DdgHits [microsoft_hit])\<rparr>"

text \<open>Both providers are set up; the primary provider would answer every request it
  receives with status 200 and an empty result page.\<close>

definition configured_world :: world where
  "configured_world =
     ddg_world\<lparr>google_api_key := Some (lit ''key''), cse_id := Some (lit ''cx''),
       http_get := (\<lambda>n url q k. HttpResp 200 (lit ''{}''))\<rparr>"

definition empty_agent :: agent where
  "empty_agent =
     \<lparr>company_memory = [], tool_calls = [], chat_history = [], trace = [], statuses = [],
      research_log = []\<rparr>"

definition tesla_plan :: company_plan where
  "tesla_plan =
     \<lparr>plan_text = lit ''old report'', plan_original_text = lit ''old report'',
      plan_json = JObj [(lit ''overview'', JStr (lit ''old''))]\<rparr>"

definition tesla_agent :: agent where
  "tesla_agent = empty_agent\<lparr>company_memory := [(lit ''Tesla'', tesla_plan)]\<rparr>"

section \<open>Basic facts\<close>

lemma lit_eq_iff [simp]: "lit a = lit b \<longleftrightarrow> a = b"
  by (simp add: lit_def inj_map_eq_map inj_on_def)

lemma lit_Nil [simp]: "lit [] = []"
  by (simp add: lit_def)

lemma lit_eq_Nil [simp]: "lit a = [] \<longleftrightarrow> a = []"
  by (simp add: lit_def)

lemma map_of_dict_set: "map_of (dict_set d k v) k' = (if k' = k then Some v else map_of d k')"
  by (induction d) auto

lemma dict_set_keys:
  "map fst (dict_set d k v) = (if k \<in> fst ` set d then map fst d else map fst d @ [k])"
proof (induction d)
  case Nil
  show ?case by simp
next
  case (Cons a d)
  obtain k' v' where a: "a = (k', v')" by (cases a)
  show ?case
  proof (cases "k' = k")
    case True
    then show ?thesis by (simp add: a)
  next
    case False
    then have "(k \<in> fst ` set (a # d)) = (k \<in> fst ` set d)" by (auto simp: a)
    with False Cons.IH show ?thesis by (simp add: a)
  qed
qed

lemma keys_dict_set: "fst ` set (dict_set d k v) = insert k (fst ` set d)"
proof -
  have "set (map fst (dict_set d k v)) = insert k (set (map fst d))"
    unfolding dict_set_keys by auto
  then show ?thesis by simp
qed

lemma dict_set_absent: "k \<notin> fst ` set d \<Longrightarrow> dict_set d k v = d @ [(k, v)]"
  by (induction d) auto

lemma sgt_snd [simp]: "snd (safe_generate_text w s p m) = record_event (EvGen p m) s"
  by (simp add: safe_generate_text_def)

lemma sgt_fst [simp]:
  "fst (safe_generate_text w s p m) = response_text w (generate_content w (length (trace s)) p m)"
  by (simp add: safe_generate_text_def)

lemma record_event_simps [simp]:
  "company_memory (record_event e s) = company_memory s"
  "trace (record_event e s) = trace s @ [e]"
  "research_log (record_event e s) = research_log s"
  by (simp_all add: record_event_def)

lemma log_tool_simps [simp]:
  "company_memory (log_tool t i out s) = company_memory s"
  "trace (log_tool t i out s) = trace s"
  "research_log (log_tool t i out s) = research_log s"
  by (simp_all add: log_tool_def)

lemma notify_simps [simp]:
  "company_memory (notify cb m s) = company_memory s"
  "trace (notify cb m s) = trace s"
  "research_log (notify cb m s) = research_log s"
  by (simp_all add: notify_def)

text \<open>Text without white space at either end is left alone by \<open>strip\<close>.\<close>

lemma strip_id:
  assumes "s = [] \<or> (\<not> is_space w (hd s) \<and> \<not> is_space w (last s))"
  shows "strip w s = s"
proof (cases "s = []")
  case True
  then show ?thesis by (simp add: strip_def)
next
  case False
  with assms have h: "\<not> is_space w (hd s)" and l: "\<not> is_space w (last s)" by simp_all
  from h have "dropWhile (is_space w) s = s"
    by (simp add: dropWhile_eq_self_iff)
  moreover from l False have "dropWhile (is_space w) (rev s) = rev s"
    by (simp add: dropWhile_eq_self_iff hd_rev)
  ultimately show ?thesis by (simp add: strip_def)
qed

section \<open>The section editor\<close>

lemma update_obj:
  assumes "map_of (company_memory s) company = Some mem" and "plan_json mem = JObj d"
  shows "update_company_section w s company section new_val =
     (Inr (lit ''Report Regenerated Successfully.''),
      (record_event (EvGen (RewritePrompt section (JObj (dict_set d section new_val))) 8000)
         (s\<lparr>company_memory := dict_set (company_memory s) company
               (mem\<lparr>plan_json := JObj (dict_set d section new_val)\<rparr>)\<rparr>))
       \<lparr>company_memory := dict_set (dict_set (company_memory s) company
               (mem\<lparr>plan_json := JObj (dict_set d section new_val)\<rparr>)) company
           (mem\<lparr>plan_json := JObj (dict_set d section new_val),
                plan_text := response_text w (generate_content w (length (trace s))
                   (RewritePrompt section (JObj (dict_set d section new_val))) 8000)\<rparr>)\<rparr>)"
  using assms
  by (simp add: update_company_section_def Let_def case_prod_beta)

text \<open>
  C8. A call of \<open>update_company_section\<close> with a company key that is not in the memory
  store returns the error string \<open>Error: Company not found\<close> and leaves the whole agent
  state as it was: no entry is created, none is modified.
\<close>

theorem update_unknown_company:
  "company \<notin> fst ` set (company_memory s) \<Longrightarrow>
   update_company_section w s company section new_val
     = (Inr (lit ''Error: Company not found''), s)"
  by (simp add: update_company_section_def map_of_eq_None_iff [THEN iffD2])

theorem update_unknown_company_witness:
  "lit ''Nonexistent'' \<notin> fst ` set (company_memory tesla_agent)
   \<and> update_company_section offline_world tesla_agent (lit ''Nonexistent'') (lit ''overview'')
         (JStr (lit ''x''))
       = (Inr (lit ''Error: Company not found''), tesla_agent)"
  using update_unknown_company
    [of "lit ''Nonexistent''" tesla_agent offline_world "lit ''overview''" "JStr (lit ''x'')"]
  by (simp add: tesla_agent_def empty_agent_def)

text \<open>
  C2, as stated, fails. The store holds \<open>Tesla\<close> with the single field \<open>overview\<close>; editing
  the section \<open>pricing\<close>, which is not a key of the stored JSON, returns the success string,
  adds the key and replaces the text.
\<close>

theorem update_missing_section_counterexample:
  "map_of (company_memory tesla_agent) (lit ''Tesla'') = Some tesla_plan
   \<and> plan_json tesla_plan = JObj [(lit ''overview'', JStr (lit ''old''))]
   \<and> fst (update_company_section offline_world tesla_agent (lit ''Tesla'') (lit ''pricing'')
            (JStr (lit ''x'')))
       = Inr (lit ''Report Regenerated Successfully.'')
   \<and> map_of (company_memory
        (snd (update_company_section offline_world tesla_agent (lit ''Tesla'') (lit ''pricing'')
                (JStr (lit ''x'')))))
        (lit ''Tesla'')
       = Some \<lparr>plan_text = lit ''report'', plan_original_text = lit ''old report'',
               plan_json = JObj [(lit ''overview'', JStr (lit ''old'')),
                                 (lit ''pricing'', JStr (lit ''x''))]\<rparr>"
proof -
  have "strip offline_world (lit ''report'') = lit ''report''"
    by (simp add: strip_def lit_def is_space_def)
  then show ?thesis
    by (simp add: update_company_section_def tesla_agent_def empty_agent_def tesla_plan_def
        offline_world_def safe_generate_text_def response_text_def record_event_def Let_def)
qed

text \<open>
  C2, amended. For a company key in the memory store whose stored JSON is a dict, and a
  section name that is not a key of it, \<open>update_company_section\<close> returns the success
  string; the stored JSON gets the section appended with the new value, the other fields
  as they were; the text becomes the regenerated report; \<open>original_text\<close> and the entries
  of every other company are unchanged.
\<close>

theorem update_new_section:
  assumes "map_of (company_memory s) company = Some mem"
    and "plan_json mem = JObj d"
    and "section \<notin> fst ` set d"
  shows "fst (update_company_section w s company section new_val)
           = Inr (lit ''Report Regenerated Successfully.'')
       \<and> map_of (company_memory (snd (update_company_section w s company section new_val))) company
           = Some (mem\<lparr>plan_json := JObj (d @ [(section, new_val)]),
                       plan_text := fst (safe_generate_text w s
                          (RewritePrompt section (JObj (d @ [(section, new_val)]))) 8000)\<rparr>)
       \<and> (\<forall>c. c \<noteq> company \<longrightarrow>
             map_of (company_memory (snd (update_company_section w s company section new_val))) c
               = map_of (company_memory s) c)"
  by (simp add: update_obj [OF assms(1,2)] map_of_dict_set dict_set_absent [OF assms(3)])

theorem update_new_section_witness:
  "map_of (company_memory tesla_agent) (lit ''Tesla'') = Some tesla_plan
   \<and> plan_json tesla_plan = JObj [(lit ''overview'', JStr (lit ''old''))]
   \<and> lit ''pricing'' \<notin> fst ` set [(lit ''overview'', JStr (lit ''old''))]
   \<and> fst (update_company_section offline_world tesla_agent (lit ''Tesla'') (lit ''pricing'')
            (JStr (lit ''x'')))
       = Inr (lit ''Report Regenerated Successfully.'')
   \<and> map_option plan_json (map_of (company_memory
        (snd (update_company_section offline_world tesla_agent (lit ''Tesla'') (lit ''pricing'')
                (JStr (lit ''x'')))))
        (lit ''Tesla''))
       = Some (JObj [(lit ''overview'', JStr (lit ''old'')), (lit ''pricing'', JStr (lit ''x''))])
   \<and> map_of (company_memory
        (snd (update_company_section offline_world tesla_agent (lit ''Tesla'') (lit ''pricing'')
                (JStr (lit ''x'')))))
        (lit ''Ford'') = None"
  using update_new_section
    [of tesla_agent "lit ''Tesla''" tesla_plan "[(lit ''overview'', JStr (lit ''old''))]"
        "lit ''pricing''" offline_world "JStr (lit ''x'')"]
  by (simp add: tesla_agent_def empty_agent_def tesla_plan_def)

section \<open>The search layer\<close>

text \<open>What the code makes of an answer of the primary provider, had it received one.\<close>

lemma primary_results_iff:
  "primary_results w res = Some results \<longleftrightarrow>
     (\<exists>body data. res = HttpResp 200 body \<and> json_loads w body = Loaded data
                  \<and> google_results data = Some results)"
  by (auto simp: primary_results_def split: http_result.splits loads_result.splits)

text \<open>The URL literal starts with a bracket, so no connection adapter takes it.\<close>

lemma no_adapter: "\<not> has_adapter search_url"
  by (simp add: has_adapter_def search_url_def lit_def ascii_lower_def)

lemma requests_get_raises: "requests_get w n search_url query top_k = HttpRaise"
  by (simp add: requests_get_def no_adapter)

lemma search_primary_none: "search_primary w n query top_k = None"
  by (simp add: search_primary_def requests_get_raises primary_results_def)

lemma search_web_fallback: "search_web w s query top_k = search_fallback w s query top_k"
  by (simp add: search_web_def search_primary_none no_adapter)

lemma search_fallback_frame:
  "company_memory (snd (search_fallback w s q k)) = company_memory s"
  "research_log (snd (search_fallback w s q k)) = research_log s"
  "trace (snd (search_fallback w s q k)) = trace s @ (if ddgs_available w then [EvDdg q k] else [])"
  by (simp_all add: search_fallback_def Let_def split: ddg_result.splits sum.splits)

lemma search_web_frame:
  "company_memory (snd (search_web w s q k)) = company_memory s"
  "research_log (snd (search_web w s q k)) = research_log s"
  "trace (snd (search_web w s q k)) = trace s @ (if ddgs_available w then [EvDdg q k] else [])"
  by (simp_all add: search_web_fallback search_fallback_frame)

lemma search_web_offline: "\<not> ddgs_available w \<Longrightarrow> search_web w s q k = ([], s)"
  by (simp add: search_web_fallback search_fallback_def)

lemma yf_calls_append [simp]: "yf_calls (xs @ ys) = yf_calls xs @ yf_calls ys"
  by (induction xs rule: yf_calls.induct) simp_all

lemma search_web_yf: "yf_calls (trace (snd (search_web w s q k))) = yf_calls (trace s)"
  by (simp add: search_web_frame)

text \<open>
  Both providers are set up, and the primary provider would answer status 200 with a page
  that maps to an empty result list. No request reaches it: the hit returned is the
  fallback provider's, and the only outside call is the fallback call.
\<close>

lemma configured_run:
  "truthy_key (google_api_key configured_world) \<and> truthy_key (cse_id configured_world)
   \<and> http_get configured_world 0 search_url (lit ''tesla news'') 5 = HttpResp 200 (lit ''{}'')
   \<and> primary_results configured_world (HttpResp 200 (lit ''{}'')) = Some []
   \<and> fst (search_web configured_world empty_agent (lit ''tesla news'') 5)
       = [\<lparr>hit_title = JStr (lit ''tesla inc''), hit_link = JStr (lit ''u''),
           hit_snippet = JStr (lit ''b'')\<rparr>]
   \<and> trace (snd (search_web configured_world empty_agent (lit ''tesla news'') 5))
       = [EvDdg (lit ''tesla news'') 5]"
  by (simp add: search_web_fallback search_fallback_def configured_world_def ddg_world_def
      offline_world_def truthy_key_def primary_results_def table_loads_def empty_agent_def
      tesla_hit_def ddg_item_def record_event_def log_tool_def Let_def)


section \<open>The financial layer\<close>

lemma upper_is_word: "is_upper c \<Longrightarrow> is_word w c"
  by (simp add: is_upper_def is_word_def)

text \<open>The match at the head of a text, declaratively.\<close>

lemma match_here_Some:
  assumes "match_here w s = Some t"
  shows "1 \<le> length t \<and> length t \<le> 5 \<and> length t \<le> length s \<and> t = take (length t) s
       \<and> list_all is_upper t
       \<and> (if length t = length s then True else \<not> is_word w (s ! length t))"
proof -
  let ?run = "takeWhile is_upper s" and ?rest = "dropWhile is_upper s"
  let ?ok = "1 \<le> length ?run \<and> length ?run \<le> 5 \<and> (?rest = [] \<or> \<not> is_word w (hd ?rest))"
  from assms have eq: "(if ?ok then Some ?run else None) = Some t"
    unfolding match_here_def Let_def .
  have ok: ?ok
  proof (rule ccontr)
    assume "\<not> ?ok"
    then have "(if ?ok then Some ?run else None) = None" by (rule if_not_P)
    with eq show False by simp
  qed
  then have "(if ?ok then Some ?run else None) = Some ?run" by (rule if_P)
  with eq have t: "t = ?run" by simp
  from ok have len: "1 \<le> length ?run" "length ?run \<le> 5"
    and r: "?rest = [] \<or> \<not> is_word w (hd ?rest)" by blast+
  have "length ?run \<le> length s" by (rule length_takeWhile_le)
  moreover have "?run = take (length ?run) s"
    by (rule takeWhile_eq_take)
  moreover have "list_all is_upper ?run"
    by (simp add: list_all_iff) (meson set_takeWhileD)
  moreover have "\<not> is_word w (s ! length ?run)" if "length ?run \<noteq> length s"
  proof -
    from that have ne: "?rest \<noteq> []"
      by (metis append_Nil2 takeWhile_dropWhile_id)
    have "length ?run < length s"
      using that length_takeWhile_le [of is_upper s] by simp
    then have "hd (drop (length ?run) s) = s ! length ?run"
      by (rule hd_drop_conv_nth)
    then have h: "hd ?rest = s ! length ?run"
      by (simp only: dropWhile_eq_drop)
    from r ne have "\<not> is_word w (hd ?rest)" by blast
    then show ?thesis unfolding h .
  qed
  ultimately show ?thesis using t len by auto
qed

lemma match_here_token:
  assumes "1 \<le> n" "n \<le> 5" "n \<le> length s" "list_all is_upper (take n s)"
    and "if n = length s then True else \<not> is_word w (s ! n)"
  shows "match_here w s = Some (take n s)"
proof -
  have run: "takeWhile is_upper s = take n s"
  proof (cases "n = length s")
    case True
    with assms(4) show ?thesis by (simp add: list_all_iff)
  next
    case False
    with assms(3) have lt: "n < length s" by simp
    from False assms(5) have "\<not> is_upper (s ! n)" using upper_is_word by auto
    moreover have "s = take n s @ s ! n # drop (Suc n) s"
      using lt by (simp add: id_take_nth_drop [symmetric])
    ultimately show ?thesis
      using assms(4) by (metis list_all_iff takeWhile_tail takeWhile_eq_all_conv)
  qed
  have rest: "dropWhile is_upper s = drop n s"
    by (metis run append_take_drop_id same_append_eq takeWhile_dropWhile_id)
  have "drop n s = [] \<or> \<not> is_word w (hd (drop n s))"
    using assms(3,5) by (cases "n = length s") (simp_all add: hd_drop_conv_nth)
  with assms(1-3) show ?thesis
    by (simp add: match_here_def Let_def run rest)
qed

lemma match_here_iff:
  "match_here w s \<noteq> None \<longleftrightarrow>
     (\<exists>n. 1 \<le> n \<and> n \<le> 5 \<and> n \<le> length s \<and> list_all is_upper (take n s)
          \<and> (if n = length s then True else \<not> is_word w (s ! n)))"
proof
  assume "match_here w s \<noteq> None"
  then obtain t where t: "match_here w s = Some t" by auto
  from match_here_Some [OF t] show "\<exists>n. 1 \<le> n \<and> n \<le> 5 \<and> n \<le> length s \<and> list_all is_upper (take n s)
          \<and> (if n = length s then True else \<not> is_word w (s ! n))"
    by (intro exI [of _ "length t"]) auto
next
  assume "\<exists>n. 1 \<le> n \<and> n \<le> 5 \<and> n \<le> length s \<and> list_all is_upper (take n s)
          \<and> (if n = length s then True else \<not> is_word w (s ! n))"
  then obtain n where "1 \<le> n" "n \<le> 5" "n \<le> length s" "list_all is_upper (take n s)"
     "if n = length s then True else \<not> is_word w (s ! n)" by blast
  from match_here_token [OF this] show "match_here w s \<noteq> None" by simp
qed

lemma token_at_Suc:
  "token_at w (x # s) (Suc i) n \<longleftrightarrow>
     (if i = 0 then \<not> is_word w x \<and> token_at w s 0 n else token_at w s i n)"
  by (cases i) (auto simp: token_at_def)

lemma token_at_0:
  "(\<exists>n. token_at w s 0 n) \<longleftrightarrow> match_here w s \<noteq> None"
  unfolding match_here_iff by (auto simp: token_at_def)

lemma token_at_0_word:
  assumes "token_at w (c # cs) 0 n" shows "is_word w c"
proof -
  from assms have "1 \<le> n" "list_all is_upper (take n (c # cs))" by (simp_all add: token_at_def)
  then have "is_upper c" by (cases n) simp_all
  then show ?thesis by (rule upper_is_word)
qed

lemma scan_ticker_None:
  "scan_ticker w (is_word w c0) s = None \<longleftrightarrow>
     (\<forall>i n. i < length s \<longrightarrow> \<not> token_at w (c0 # s) (Suc i) n)"
proof (induction s arbitrary: c0)
  case Nil
  show ?case by simp
next
  case (Cons c cs)
  have later: "(\<forall>i n. i < length cs \<longrightarrow> \<not> token_at w (c0 # c # cs) (Suc (Suc i)) n)
      \<longleftrightarrow> scan_ticker w (is_word w c) cs = None"
    by (simp add: Cons.IH token_at_Suc [of w c0 "c # cs"])
  have first: "(\<exists>n. token_at w (c0 # c # cs) (Suc 0) n)
      \<longleftrightarrow> is_word w c0 \<noteq> is_word w c \<and> match_here w (c # cs) \<noteq> None"
    using token_at_0 [of w "c # cs"] token_at_0_word [of w c cs]
    by (auto simp: token_at_Suc)
  have split: "(\<forall>i n. i < length (c # cs) \<longrightarrow> \<not> token_at w (c0 # c # cs) (Suc i) n)
      \<longleftrightarrow> (\<forall>n. \<not> token_at w (c0 # c # cs) (Suc 0) n)
          \<and> (\<forall>i n. i < length cs \<longrightarrow> \<not> token_at w (c0 # c # cs) (Suc (Suc i)) n)"
    by (auto simp: less_Suc_eq_0_disj)
  show ?case
    unfolding split later using first
    by (auto split: option.splits)
qed

lemma has_token_iff:
  "has_token w s \<longleftrightarrow> (\<exists>i n. i < length s \<and> token_at w s i n)"
proof -
  have a: "n \<in> set [1..<6] \<longleftrightarrow> 1 \<le> n \<and> n \<le> 5" for n :: nat by auto
  have b: "i \<in> set [0..<length s] \<longleftrightarrow> i < length s" for i by simp
  have c: "token_at w s i n \<Longrightarrow> 1 \<le> n \<and> n \<le> 5" for i n
    unfolding token_at_def by blast
  show ?thesis unfolding has_token_def Bex_def a b using c by blast
qed

lemma search_ticker_None_iff: "search_ticker w s = None \<longleftrightarrow> \<not> has_token w s"
proof -
  have sp: "\<not> is_word w 32" by (simp add: is_word_def)
  have "token_at w (32 # s) (Suc i) n \<longleftrightarrow> token_at w s i n" for i n
    using sp by (cases i) (simp_all add: token_at_Suc)
  with scan_ticker_None [of w 32 s] sp show ?thesis
    unfolding search_ticker_def has_token_iff by simp
qed

text \<open>
  The scanner of the code finds nothing exactly when the text holds no bare token of one
  to five capitals.
\<close>

lemma search_ticker_Some_token:
  "search_ticker w s \<noteq> None \<longleftrightarrow> has_token w s"
  by (simp add: search_ticker_None_iff)

text \<open>Beyond ASCII the answer depends on the runtime's tables, as in Python.\<close>

lemma zurich_no_token:
  "uc_word w 252 \<Longrightarrow> search_ticker w (lit ''Z'' @ [252] @ lit ''rich Insurance'') = None"
  by (simp add: search_ticker_def lit_def is_word_def match_here_def is_upper_def)

lemma sharp_s_token:
  "uc_upper w 223 = lit ''SS'' \<Longrightarrow> search_ticker w (upper w [223]) = Some (lit ''SS'')"
  by (simp add: search_ticker_def lit_def is_word_def match_here_def is_upper_def upper_def
      upper_char_def)

lemma ticker_data_frame:
  "company_memory (snd (ticker_data w s t)) = company_memory s"
  "research_log (snd (ticker_data w s t)) = research_log s"
  "trace (snd (ticker_data w s t)) = trace s @ [EvYf t]"
  by (simp_all add: ticker_data_def Let_def split: yf_result.splits)

lemma fetch_financials_frame:
  "company_memory (snd (fetch_financials w s c)) = company_memory s"
  "research_log (snd (fetch_financials w s c)) = research_log s"
  by (simp_all add: fetch_financials_def case_prod_beta search_web_frame ticker_data_frame
      split: option.splits list.splits json.splits)

lemma fetch_financials_error:
  "fst (fetch_financials w s c) = Inl e \<Longrightarrow> e = AttributeError"
  by (simp add: fetch_financials_def case_prod_beta
      split: option.splits list.splits json.splits)

text \<open>A title that, in upper case, holds a token sends that token to the market-data
  provider.\<close>

lemma ticker_from_title:
  assumes "search_ticker w company = None"
    and "search_web w s (company @ lit '' stock ticker symbol'') 1 = (h # hs, s1)"
    and "hit_title h = JStr title"
    and "search_ticker w (upper w title) = Some t"
  shows "fetch_financials w s company = (Inr (fst (ticker_data w s1 t)), snd (ticker_data w s1 t))"
    and "yf_calls (trace (snd (fetch_financials w s company))) = yf_calls (trace s) @ [t]"
proof -
  show a: "fetch_financials w s company
             = (Inr (fst (ticker_data w s1 t)), snd (ticker_data w s1 t))"
    using assms by (simp add: fetch_financials_def case_prod_beta)
  have "yf_calls (trace s1) = yf_calls (trace s)"
    using search_web_yf [of w s "company @ lit '' stock ticker symbol''" 1] assms(2) by simp
  then show "yf_calls (trace (snd (fetch_financials w s company))) = yf_calls (trace s) @ [t]"
    by (simp add: a ticker_data_frame)
qed

lemma tesla_search:
  "fst (search_web ddg_world empty_agent (lit ''tesla'' @ lit '' stock ticker symbol'') 1)
     = [\<lparr>hit_title = JStr (lit ''tesla inc''), hit_link = JStr (lit ''u''),
         hit_snippet = JStr (lit ''b'')\<rparr>]"
  by (simp add: search_web_fallback search_fallback_def ddg_world_def offline_world_def
      tesla_hit_def ddg_item_def Let_def)

lemma microsoft_search:
  "fst (search_web microsoft_world empty_agent (lit ''microsoft'' @ lit '' stock ticker symbol'') 1)
     = [\<lparr>hit_title = JStr (lit ''microsoft corporation''), hit_link = JStr (lit ''u''),
         hit_snippet = JStr (lit ''b'')\<rparr>]"
  by (simp add: search_web_fallback search_fallback_def microsoft_world_def ddg_world_def
      offline_world_def microsoft_hit_def ddg_item_def Let_def)

lemma microsoft_tokens:
  "\<not> has_token microsoft_world (lit ''microsoft'')
   \<and> upper microsoft_world (lit ''microsoft corporation'') = lit ''MICROSOFT CORPORATION''
   \<and> \<not> has_token microsoft_world (lit ''MICROSOFT CORPORATION'')"
  by code_simp

lemma tesla_tokens:
  "\<not> has_token ddg_world (lit ''tesla'') \<and> \<not> has_token ddg_world (lit ''tesla inc'')
   \<and> upper ddg_world (lit ''tesla inc'') = lit ''TESLA INC''
   \<and> has_token ddg_world (lit ''TESLA INC'')
   \<and> search_ticker ddg_world (lit ''TESLA INC'') = Some (lit ''TESLA'')"
  by code_simp

text \<open>
  C7, as stated, fails. The company \<open>tesla\<close> holds no bare token of capitals, and the
  title \<open>tesla inc\<close> of the only hit holds none either; the title is put in upper case
  before it is scanned, so \<open>TESLA\<close> is taken as ticker and the market-data provider is
  called.
\<close>

theorem lowercase_title_counterexample:
  "\<not> has_token ddg_world (lit ''tesla'')
   \<and> fst (search_web ddg_world empty_agent (lit ''tesla'' @ lit '' stock ticker symbol'') 1)
       = [\<lparr>hit_title = JStr (lit ''tesla inc''), hit_link = JStr (lit ''u''),
           hit_snippet = JStr (lit ''b'')\<rparr>]
   \<and> \<not> has_token ddg_world (lit ''tesla inc'')
   \<and> fst (fetch_financials ddg_world empty_agent (lit ''tesla''))
       = Inr (JObj [(lit ''symbol'', JStr (lit ''TESLA'')), (lit ''market_cap'', JNum 1),
                    (lit ''price'', JNum 2), (lit ''currency'', JStr (lit ''USD'')),
                    (lit ''source'', JStr (lit ''yfinance fast_info''))])
   \<and> yf_calls (trace (snd (fetch_financials ddg_world empty_agent (lit ''tesla''))))
       = [lit ''TESLA'']"
proof -
  let ?q = "lit ''tesla'' @ lit '' stock ticker symbol''"
  let ?h = "\<lparr>hit_title = JStr (lit ''tesla inc''), hit_link = JStr (lit ''u''),
             hit_snippet = JStr (lit ''b'')\<rparr>"
  have none: "search_ticker ddg_world (lit ''tesla'') = None"
    using tesla_tokens by (simp add: search_ticker_None_iff)
  have sw: "search_web ddg_world empty_agent ?q 1
              = (?h # [], snd (search_web ddg_world empty_agent ?q 1))"
    using tesla_search by (simp add: prod_eq_iff)
  have up: "search_ticker ddg_world (upper ddg_world (lit ''tesla inc'')) = Some (lit ''TESLA'')"
    using tesla_tokens by simp
  note r = ticker_from_title [OF none sw _ up, simplified]
  have td: "fst (ticker_data ddg_world s (lit ''TESLA''))
      = JObj [(lit ''symbol'', JStr (lit ''TESLA'')), (lit ''market_cap'', JNum 1),
              (lit ''price'', JNum 2), (lit ''currency'', JStr (lit ''USD'')),
              (lit ''source'', JStr (lit ''yfinance fast_info''))]" for s
    by (simp add: ticker_data_def ddg_world_def offline_world_def Let_def)
  show ?thesis
    using tesla_tokens tesla_search r by (simp add: td empty_agent_def)
qed

text \<open>
  C7, amended. For a company string with no bare token of one to five capitals, when the
  ticker search returns no hit, or a first hit whose title is text that, put in upper
  case, holds no bare token of one to five capitals, \<open>fetch_financials\<close> returns the
  error dict \<open>Could not detect ticker.\<close>, its state is the one the search left, and no
  call to the market-data provider is made.
\<close>

theorem no_ticker_no_market_call:
  assumes "\<not> has_token w company"
    and "search_web w s (company @ lit '' stock ticker symbol'') 1 = (hits, s1)"
    and "hits = [] \<or> (\<exists>title. hit_title (hd hits) = JStr title
                                \<and> \<not> has_token w (upper w title))"
  shows "fetch_financials w s company
           = (Inr (error_dict (lit ''Could not detect ticker.'')), s1)
       \<and> yf_calls (trace s1) = yf_calls (trace s)"
proof -
  have "yf_calls (trace s1) = yf_calls (trace s)"
    using search_web_yf [of w s "company @ lit '' stock ticker symbol''" 1] assms(2) by simp
  moreover have "fetch_financials w s company
                   = (Inr (error_dict (lit ''Could not detect ticker.'')), s1)"
    using assms
    by (auto simp: fetch_financials_def search_ticker_None_iff [symmetric] split: list.splits)
  ultimately show ?thesis by simp
qed

theorem no_ticker_no_market_call_witness:
  "\<not> has_token microsoft_world (lit ''microsoft'')
   \<and> fst (search_web microsoft_world empty_agent (lit ''microsoft'' @ lit '' stock ticker symbol'') 1)
       = [\<lparr>hit_title = JStr (lit ''microsoft corporation''), hit_link = JStr (lit ''u''),
           hit_snippet = JStr (lit ''b'')\<rparr>]
   \<and> upper microsoft_world (lit ''microsoft corporation'') = lit ''MICROSOFT CORPORATION''
   \<and> \<not> has_token microsoft_world (lit ''MICROSOFT CORPORATION'')
   \<and> fst (fetch_financials microsoft_world empty_agent (lit ''microsoft''))
       = Inr (error_dict (lit ''Could not detect ticker.''))
   \<and> yf_calls (trace (snd (fetch_financials microsoft_world empty_agent (lit ''microsoft''))))
       = []"
  using no_ticker_no_market_call
    [of microsoft_world "lit ''microsoft''" empty_agent
        "fst (search_web microsoft_world empty_agent
               (lit ''microsoft'' @ lit '' stock ticker symbol'') 1)"
        "snd (search_web microsoft_world empty_agent
               (lit ''microsoft'' @ lit '' stock ticker symbol'') 1)"]
    microsoft_tokens microsoft_search
  by (simp add: empty_agent_def)

section \<open>The research flow\<close>

lemma store_plan_simps [simp]:
  "company_memory (store_plan s name report j)
     = dict_set (company_memory s) name
         \<lparr>plan_text = report, plan_original_text = report, plan_json = j\<rparr>"
  "trace (store_plan s name report j) = trace s"
  "research_log (store_plan s name report j) = research_log s"
  by (simp_all add: store_plan_def)

text \<open>A research run for a company given as text, step by step.\<close>

lemma research_steps:
  assumes "search_web w (notify cb (StSearching name) (s\<lparr>research_log := research_log s @ [JStr name]\<rparr>))
             (name @ lit '' strategic analysis news'') 5 = (search_data, s1)"
    and "fetch_financials w (notify cb StFinancial s1) name = (Inr fin_data, s3)"
    and "safe_generate_text w (notify cb StWriting s3) (ReportPrompt name search_data fin_data) 8000
           = (report_text, s5)"
    and "safe_generate_text w (notify cb StExtracting s5) (JsonPrompt name (take 20000 report_text)) 4000
           = (json_raw, s7)"
  shows "perform_deep_research w s (JStr name) cb =
           (case json_loads w (clean_json_string w json_raw) of
              Loaded json_data \<Rightarrow> (Inr report_text, store_plan s7 name report_text json_data)
            | JSONDecodeError \<Rightarrow>
                (Inr report_text,
                 store_plan s7 name report_text (parse_failure (clean_json_string w json_raw)))
            | LoadsError e \<Rightarrow> (Inl e, s7))"
  using assms by (simp add: perform_deep_research_def format_value_def Let_def)

lemma research_log_grows:
  "research_log (snd (perform_deep_research w s c cb)) = research_log s @ [c]"
proof -
  let ?s0 = "notify cb (StSearching (format_value w c)) (s\<lparr>research_log := research_log s @ [c]\<rparr>)"
  let ?s2 = "notify cb StFinancial
               (snd (search_web w ?s0 (format_value w c @ lit '' strategic analysis news'') 5))"
  have s2: "research_log ?s2 = research_log s @ [c]"
    by (simp add: search_web_frame)
  show ?thesis
  proof (cases c)
    case (JStr name)
    have ff: "research_log (snd (fetch_financials w ?s2 name)) = research_log s @ [c]"
      by (simp add: fetch_financials_frame search_web_frame)
    show ?thesis
    proof (cases "fetch_financials w ?s2 name")
      case (Pair r s3)
      with ff have s3: "research_log s3 = research_log s @ [c]" by simp
      show ?thesis
        using JStr Pair s3
        by (cases r)
           (simp_all add: perform_deep_research_def Let_def case_prod_beta
              split: loads_result.splits)
    qed
  qed (simp_all add: perform_deep_research_def Let_def case_prod_beta search_web_frame)
qed

lemma research_outcome:
  "(\<exists>name report j. c = JStr name \<and> fst (perform_deep_research w s c cb) = Inr report
       \<and> company_memory (snd (perform_deep_research w s c cb))
           = dict_set (company_memory s) name
               \<lparr>plan_text = report, plan_original_text = report, plan_json = j\<rparr>)
   \<or> (\<exists>e. fst (perform_deep_research w s c cb) = Inl e
         \<and> company_memory (snd (perform_deep_research w s c cb)) = company_memory s)"
proof -
  let ?s0 = "notify cb (StSearching (format_value w c)) (s\<lparr>research_log := research_log s @ [c]\<rparr>)"
  let ?s2 = "notify cb StFinancial
               (snd (search_web w ?s0 (format_value w c @ lit '' strategic analysis news'') 5))"
  have s2: "company_memory ?s2 = company_memory s"
    by (simp add: search_web_frame)
  show ?thesis
  proof (cases c)
    case (JStr name)
    have ff: "company_memory (snd (fetch_financials w ?s2 name)) = company_memory s"
      by (simp add: fetch_financials_frame search_web_frame)
    show ?thesis
    proof (cases "fetch_financials w ?s2 name")
      case (Pair r s3)
      with ff have s3: "company_memory s3 = company_memory s" by simp
      show ?thesis
        using JStr Pair s3
        by (cases r)
           (auto simp: perform_deep_research_def Let_def case_prod_beta
              split: loads_result.splits)
    qed
  qed (simp_all add: perform_deep_research_def Let_def case_prod_beta search_web_frame)
qed

lemma research_return:
  assumes "fst (perform_deep_research w s c cb) = Inr report"
  shows "\<exists>name j. c = JStr name
           \<and> company_memory (snd (perform_deep_research w s c cb))
               = dict_set (company_memory s) name
                   \<lparr>plan_text = report, plan_original_text = report, plan_json = j\<rparr>"
  using research_outcome [of c w s cb] assms by auto

lemma research_raise:
  assumes "fst (perform_deep_research w s c cb) = Inl e"
  shows "company_memory (snd (perform_deep_research w s c cb)) = company_memory s"
  using research_outcome [of c w s cb] assms by auto


text \<open>A research run without a status callback, when the fallback library is missing and
  the company name holds no ticker: no search hit, no market data, two calls of the model.\<close>

lemma offline_steps:
  assumes "\<not> ddgs_available w" and "search_ticker w name = None"
  shows "search_web w (notify False (StSearching name)
                         (s\<lparr>research_log := research_log s @ [JStr name]\<rparr>))
           (name @ lit '' strategic analysis news'') 5
           = ([], s\<lparr>research_log := research_log s @ [JStr name]\<rparr>)"
    and "fetch_financials w (notify False StFinancial
                               (s\<lparr>research_log := research_log s @ [JStr name]\<rparr>)) name
           = (Inr (error_dict (lit ''Could not detect ticker.'')),
              s\<lparr>research_log := research_log s @ [JStr name]\<rparr>)"
    and "safe_generate_text w (notify False StWriting
                                 (s\<lparr>research_log := research_log s @ [JStr name]\<rparr>))
           (ReportPrompt name [] (error_dict (lit ''Could not detect ticker.''))) 8000
           = (response_text w (generate_content w (length (trace s))
                 (ReportPrompt name [] (error_dict (lit ''Could not detect ticker.''))) 8000),
              record_event
                (EvGen (ReportPrompt name [] (error_dict (lit ''Could not detect ticker.''))) 8000)
                (s\<lparr>research_log := research_log s @ [JStr name]\<rparr>))"
    and "safe_generate_text w
           (notify False StExtracting
              (record_event
                 (EvGen (ReportPrompt name [] (error_dict (lit ''Could not detect ticker.''))) 8000)
                 (s\<lparr>research_log := research_log s @ [JStr name]\<rparr>)))
           (JsonPrompt name report) 4000
           = (response_text w (generate_content w (Suc (length (trace s)))
                 (JsonPrompt name report) 4000),
              record_event (EvGen (JsonPrompt name report) 4000)
                (record_event
                   (EvGen (ReportPrompt name [] (error_dict (lit ''Could not detect ticker.''))) 8000)
                   (s\<lparr>research_log := research_log s @ [JStr name]\<rparr>)))"
  using assms
  by (simp_all add: search_web_offline fetch_financials_def safe_generate_text_def notify_def)

lemma research_offline:
  assumes "\<not> ddgs_available w" and "search_ticker w name = None"
  shows "perform_deep_research w s (JStr name) False =
     (let fin_data = error_dict (lit ''Could not detect ticker.'');
          p1 = ReportPrompt name [] fin_data;
          report_text = response_text w (generate_content w (length (trace s)) p1 8000);
          p2 = JsonPrompt name (take 20000 report_text);
          json_str = clean_json_string w
                       (response_text w (generate_content w (Suc (length (trace s))) p2 4000));
          s7 = record_event (EvGen p2 4000) (record_event (EvGen p1 8000)
                 (s\<lparr>research_log := research_log s @ [JStr name]\<rparr>))
      in case json_loads w json_str of
           Loaded json_data \<Rightarrow> (Inr report_text, store_plan s7 name report_text json_data)
         | JSONDecodeError \<Rightarrow>
             (Inr report_text, store_plan s7 name report_text (parse_failure json_str))
         | LoadsError e \<Rightarrow> (Inl e, s7))"
  unfolding research_steps [OF offline_steps [OF assms]] Let_def ..

text \<open>Text is found only inside text that holds all its characters.\<close>

lemma contains_set: "contains pat s \<Longrightarrow> set pat \<subseteq> set s"
proof (induction s)
  case Nil
  then show ?case by simp
next
  case (Cons c cs)
  then show ?case using set_mono_prefix [of pat "c # cs"] by auto
qed

lemma clean_plain:
  assumes "96 \<notin> set s" and "s = [] \<or> (\<not> is_space w (hd s) \<and> \<not> is_space w (last s))"
  shows "clean_json_string w s = s"
proof -
  have "96 \<in> set fence_json" "96 \<in> set fence"
    by (simp_all add: fence_json_def fence_def lit_def)
  with assms(1) have "\<not> contains fence_json s" "\<not> contains fence s"
    using contains_set by blast+
  then show ?thesis by (simp add: clean_json_string_def strip_id [OF assms(2)])
qed

lemma deep_text_facts:
  "hd deep_text = 91" "last deep_text = 91" "set deep_text = {91}" "deep_text \<noteq> []"
  unfolding deep_text_def by (simp_all add: hd_replicate last_replicate)

lemma deep_text_clean: "clean_json_string w deep_text = deep_text"
  by (rule clean_plain) (simp_all add: deep_text_facts is_space_def)

lemma deep_text_response: "response_text w (GenResp (Some deep_text) None) = deep_text"
  by (simp add: response_text_def deep_text_facts strip_id is_space_def)

lemma deep_text_loads: "table_loads deep_text = LoadsError RecursionError"
proof -
  have "hd (lit ''{}'') = 123" "hd followup_body = 123" "hd dict_body = 123"
    by (simp_all add: followup_body_def dict_body_def lit_def)
  then have "deep_text \<noteq> lit ''{}''" "deep_text \<noteq> followup_body" "deep_text \<noteq> dict_body"
    using deep_text_facts(1) by auto
  then show ?thesis by (simp add: table_loads_def)
qed

lemma tesla_no_ticker: "search_ticker w (lit ''tesla'') = None"
  by (simp add: search_ticker_def lit_def is_word_def match_here_def is_upper_def)

lemma ford_no_ticker: "search_ticker w (lit ''ford'') = None"
  by (simp add: search_ticker_def lit_def is_word_def match_here_def is_upper_def)

lemma report_response: "response_text w (GenResp (Some (lit ''report'')) None) = lit ''report''"
  by (simp add: response_text_def strip_def lit_def is_space_def)

lemma report_clean: "clean_json_string w (lit ''report'') = lit ''report''"
  by (rule clean_plain) (simp_all add: lit_def is_space_def)

lemma report_loads: "table_loads (lit ''report'') = JSONDecodeError"
proof -
  have "hd (lit ''report'') = 114" "hd (lit ''{}'') = 123" "hd followup_body = 123"
    "hd dict_body = 123"
    by (simp_all add: followup_body_def dict_body_def lit_def)
  then have "lit ''report'' \<noteq> followup_body" "lit ''report'' \<noteq> dict_body"
    "lit ''report'' \<noteq> deep_text"
    using deep_text_facts(1) by auto
  then show ?thesis by (simp add: table_loads_def)
qed

text \<open>The run in which the extraction answer is 20000 opening brackets: both calls of the
  model are made, \<open>json.loads\<close> raises \<open>RecursionError\<close>, nothing is stored.\<close>

lemma deep_world_run:
  assumes "search_ticker deep_world name = None"
  shows "perform_deep_research deep_world s (JStr name) False =
     (Inl RecursionError,
      record_event (EvGen (JsonPrompt name (lit ''report'')) 4000)
        (record_event (EvGen (ReportPrompt name []
                                (error_dict (lit ''Could not detect ticker.''))) 8000)
           (s\<lparr>research_log := research_log s @ [JStr name]\<rparr>)))"
proof -
  have off: "\<not> ddgs_available deep_world"
    by (simp add: deep_world_def offline_world_def)
  have g1: "generate_content deep_world n (ReportPrompt c h f) m = GenResp (Some (lit ''report'')) None"
    for n c h f m by (simp add: deep_world_def offline_world_def)
  have g2: "generate_content deep_world n (JsonPrompt c t) m = GenResp (Some deep_text) None"
    for n c t m by (simp add: deep_world_def offline_world_def)
  have l: "json_loads deep_world = table_loads"
    by (simp add: deep_world_def offline_world_def)
  have t: "take 20000 (lit ''report'') = lit ''report''" by (simp add: lit_def)
  show ?thesis
    by (simp add: research_offline [OF off assms] Let_def g1 g2 l report_response
        deep_text_response deep_text_clean deep_text_loads t)
qed

lemma offline_world_run:
  assumes "search_ticker offline_world name = None"
  shows "perform_deep_research offline_world s (JStr name) False =
     (Inr (lit ''report''),
      store_plan
        (record_event (EvGen (JsonPrompt name (lit ''report'')) 4000)
           (record_event (EvGen (ReportPrompt name []
                                   (error_dict (lit ''Could not detect ticker.''))) 8000)
              (s\<lparr>research_log := research_log s @ [JStr name]\<rparr>)))
        name (lit ''report'') (parse_failure (lit ''report'')))"
proof -
  have off: "\<not> ddgs_available offline_world"
    by (simp add: offline_world_def)
  have g: "generate_content offline_world n p m = GenResp (Some (lit ''report'')) None"
    for n p m by (simp add: offline_world_def)
  have l: "json_loads offline_world = table_loads"
    by (simp add: offline_world_def)
  have t: "take 20000 (lit ''report'') = lit ''report''" by (simp add: lit_def)
  show ?thesis
    by (simp add: research_offline [OF off assms] Let_def g l report_response
        report_clean report_loads t)
qed

text \<open>
  C6. When decoding the extraction answer raises \<open>JSONDecodeError\<close>, the plan is stored
  with \<open>json = {error: "Failed to parse JSON", raw: <the cleaned answer>}\<close> and the
  narrative is returned. The claim fails for an answer on which \<open>json.loads\<close> raises
  anything else (\<open>RecursionError\<close> on deeply nested text): the exception leaves
  \<open>perform_deep_research\<close>, the narrative is not returned and nothing is stored.
\<close>

theorem extraction_failure_outcomes:
  assumes "search_web w (notify cb (StSearching name) (s\<lparr>research_log := research_log s @ [JStr name]\<rparr>))
             (name @ lit '' strategic analysis news'') 5 = (search_data, s1)"
    and "fetch_financials w (notify cb StFinancial s1) name = (Inr fin_data, s3)"
    and "safe_generate_text w (notify cb StWriting s3) (ReportPrompt name search_data fin_data) 8000
           = (report_text, s5)"
    and "safe_generate_text w (notify cb StExtracting s5) (JsonPrompt name (take 20000 report_text)) 4000
           = (json_raw, s7)"
  shows "(json_loads w (clean_json_string w json_raw) = JSONDecodeError \<longrightarrow>
            fst (perform_deep_research w s (JStr name) cb) = Inr report_text
          \<and> map_of (company_memory (snd (perform_deep_research w s (JStr name) cb))) name
              = Some \<lparr>plan_text = report_text, plan_original_text = report_text,
                      plan_json = JObj [(lit ''error'', JStr (lit ''Failed to parse JSON'')),
                                        (lit ''raw'', JStr (clean_json_string w json_raw))]\<rparr>)
       \<and> (\<forall>e. json_loads w (clean_json_string w json_raw) = LoadsError e \<longrightarrow>
            perform_deep_research w s (JStr name) cb = (Inl e, s7)
          \<and> company_memory s7 = company_memory s)"
proof -
  have "s1 = snd (search_web w (notify cb (StSearching name)
                  (s\<lparr>research_log := research_log s @ [JStr name]\<rparr>))
                  (name @ lit '' strategic analysis news'') 5)"
    using assms(1) by simp
  then have m1: "company_memory s1 = company_memory s" by (simp add: search_web_frame)
  have "s3 = snd (fetch_financials w (notify cb StFinancial s1) name)"
    using assms(2) by simp
  then have m3: "company_memory s3 = company_memory s" by (simp add: fetch_financials_frame m1)
  have "s5 = snd (safe_generate_text w (notify cb StWriting s3)
                    (ReportPrompt name search_data fin_data) 8000)"
    using assms(3) by simp
  then have m5: "company_memory s5 = company_memory s" by (simp add: m3)
  have "s7 = snd (safe_generate_text w (notify cb StExtracting s5)
                    (JsonPrompt name (take 20000 report_text)) 4000)"
    using assms(4) by simp
  then have m7: "company_memory s7 = company_memory s" by (simp add: m5)
  show ?thesis
    by (simp add: research_steps [OF assms] m7 map_of_dict_set parse_failure_def)
qed

theorem extraction_failure_outcomes_witness:
  "json_loads offline_world (clean_json_string offline_world (lit ''report'')) = JSONDecodeError
   \<and> fst (perform_deep_research offline_world empty_agent (JStr (lit ''tesla'')) False)
       = Inr (lit ''report'')
   \<and> map_of (company_memory
        (snd (perform_deep_research offline_world empty_agent (JStr (lit ''tesla'')) False)))
        (lit ''tesla'')
       = Some \<lparr>plan_text = lit ''report'', plan_original_text = lit ''report'',
               plan_json = JObj [(lit ''error'', JStr (lit ''Failed to parse JSON'')),
                                 (lit ''raw'', JStr (lit ''report''))]\<rparr>
   \<and> json_loads deep_world (clean_json_string deep_world deep_text) = LoadsError RecursionError
   \<and> fst (perform_deep_research deep_world empty_agent (JStr (lit ''tesla'')) False)
       = Inl RecursionError
   \<and> company_memory
        (snd (perform_deep_research deep_world empty_agent (JStr (lit ''tesla'')) False)) = []
   \<and> trace (snd (perform_deep_research deep_world empty_agent (JStr (lit ''tesla'')) False))
       = [EvGen (ReportPrompt (lit ''tesla'') [] (error_dict (lit ''Could not detect ticker.''))) 8000,
          EvGen (JsonPrompt (lit ''tesla'') (lit ''report'')) 4000]"
proof -
  have off: "\<not> ddgs_available offline_world" "\<not> ddgs_available deep_world"
    by (simp_all add: deep_world_def offline_world_def)
  have g: "generate_content offline_world n p m = GenResp (Some (lit ''report'')) None"
    "generate_content deep_world n (ReportPrompt c h f) m = GenResp (Some (lit ''report'')) None"
    "generate_content deep_world n (JsonPrompt c t) m = GenResp (Some deep_text) None"
    for n p m c h f t by (simp_all add: deep_world_def offline_world_def)
  have l: "json_loads offline_world = table_loads" "json_loads deep_world = table_loads"
    by (simp_all add: deep_world_def offline_world_def)
  have t: "take 20000 (lit ''report'') = lit ''report''" by (simp add: lit_def)
  note a = extraction_failure_outcomes
    [OF offline_steps [OF off(1) tesla_no_ticker], where s = empty_agent]
  note b = extraction_failure_outcomes
    [OF offline_steps [OF off(2) tesla_no_ticker], where s = empty_agent]
  show ?thesis
    using a b
    by (simp add: g l t report_response report_clean report_loads deep_text_response
        deep_text_clean deep_text_loads empty_agent_def record_event_def)
qed

text \<open>
  C10. A call of \<open>perform_deep_research\<close> that returns has stored, under the company
  name, a plan whose text and original text are the returned report; so the lookup that
  follows it in \<open>compare_companies\<close> finds the key. The store is not unconditional: a call
  that raises leaves the memory store as it was.
\<close>

theorem research_stores_unless_raises:
  "(\<forall>report. fst (perform_deep_research w s c cb) = Inr report \<longrightarrow>
      (\<exists>name j. c = JStr name
         \<and> map_of (company_memory (snd (perform_deep_research w s c cb))) name
             = Some \<lparr>plan_text = report, plan_original_text = report, plan_json = j\<rparr>))
   \<and> (\<forall>e. fst (perform_deep_research w s c cb) = Inl e \<longrightarrow>
        company_memory (snd (perform_deep_research w s c cb)) = company_memory s)"
proof (intro conjI allI impI)
  fix report
  assume "fst (perform_deep_research w s c cb) = Inr report"
  from research_return [OF this]
  show "\<exists>name j. c = JStr name
         \<and> map_of (company_memory (snd (perform_deep_research w s c cb))) name
             = Some \<lparr>plan_text = report, plan_original_text = report, plan_json = j\<rparr>"
    by (auto simp: map_of_dict_set)
next
  fix e
  assume "fst (perform_deep_research w s c cb) = Inl e"
  then show "company_memory (snd (perform_deep_research w s c cb)) = company_memory s"
    by (rule research_raise)
qed

theorem research_stores_unless_raises_witness:
  "fst (perform_deep_research offline_world empty_agent (JStr (lit ''tesla'')) False)
     = Inr (lit ''report'')
   \<and> map_option plan_original_text
       (map_of (company_memory
          (snd (perform_deep_research offline_world empty_agent (JStr (lit ''tesla'')) False)))
          (lit ''tesla'')) = Some (lit ''report'')
   \<and> fst (perform_deep_research deep_world empty_agent (JStr (lit ''tesla'')) False)
       = Inl RecursionError
   \<and> company_memory
        (snd (perform_deep_research deep_world empty_agent (JStr (lit ''tesla'')) False)) = []"
proof -
  have a: "fst (perform_deep_research offline_world empty_agent (JStr (lit ''tesla'')) False)
             = Inr (lit ''report'')"
    by (simp add: offline_world_run [OF tesla_no_ticker])
  have b: "fst (perform_deep_research deep_world empty_agent (JStr (lit ''tesla'')) False)
             = Inl RecursionError"
    by (simp add: deep_world_run [OF tesla_no_ticker])
  have e: "company_memory empty_agent = []" by (simp add: empty_agent_def)
  show ?thesis
    using research_stores_unless_raises
            [of offline_world empty_agent "JStr (lit ''tesla'')" False]
          research_stores_unless_raises
            [of deep_world empty_agent "JStr (lit ''tesla'')" False]
          a b e
    by auto
qed

end
